theory Spec2Isabelle
  imports Main "HOL-Library.AList"
begin

section \<open>Python values and dictionaries\<close>

text \<open>
  The ticker handler of \<^verbatim>\<open>evennia/scripts/tickerhandler.py\<close> is embedded with explicit
  state passing. A Python \<^verbatim>\<open>dict\<close> is an association list with pairwise different keys:
  assigning to an existing key replaces the value where it stands, assigning to a new key
  appends, and a loop over the dictionary visits the entries in list order. Theorems that
  depend on the keys being different say so; nothing depends on where a new key is put.
\<close>

text \<open>An object is identified by \<open>ident\<close>; \<open>has_db_key\<close> is \<^verbatim>\<open>hasattr(obj, "db_key")\<close>,
  true of typeclassed database entities.\<close>

datatype pyobj = PyObj (ident: nat) (has_db_key: bool)

text \<open>The values that occur as callbacks, arguments and keyword arguments. \<open>PMethod ob n\<close> is
  the bound method \<open>n\<close> of \<open>ob\<close>, \<open>PFunc m f\<close> the stand-alone function \<open>f\<close> of module \<open>m\<close>,
  \<open>PCallable\<close> any other callable (a class, a builtin, an instance with \<^verbatim>\<open>__call__\<close>).\<close>

datatype pyval =
    PNone
  | PBool bool
  | PInt int
  | PStr string
  | PObj pyobj
  | PMethod pyobj string
  | PFunc string string
  | PCallable nat

datatype error = TypeError | ValueError | KeyError

type_synonym args = "pyval list"
type_synonym kwargs = "(string \<times> pyval) list"

text \<open>\<^verbatim>\<open>d.get(k, default)\<close>, \<^verbatim>\<open>d[k] = v\<close> and \<^verbatim>\<open>d.pop(k, default)\<close>.\<close>

definition dict_get :: "'k \<Rightarrow> 'v \<Rightarrow> ('k \<times> 'v) list \<Rightarrow> 'v" where
  "dict_get k dflt d = (case map_of d k of None \<Rightarrow> dflt | Some v \<Rightarrow> v)"

definition dict_set :: "'k \<Rightarrow> 'v \<Rightarrow> ('k \<times> 'v) list \<Rightarrow> ('k \<times> 'v) list" where
  "dict_set k v d = AList.update k v d"

definition dict_pop :: "'k \<Rightarrow> 'v \<Rightarrow> ('k \<times> 'v) list \<Rightarrow> 'v \<times> ('k \<times> 'v) list" where
  "dict_pop k dflt d = (dict_get k dflt d, AList.delete k d)"

definition dict_has :: "'k \<Rightarrow> ('k \<times> 'v) list \<Rightarrow> bool" where
  "dict_has k d = (map_of d k \<noteq> None)"

text \<open>\<^verbatim>\<open>callable(v)\<close>.\<close>

fun callable :: "pyval \<Rightarrow> bool" where
  "callable (PMethod ob n) = True"
| "callable (PFunc m f) = True"
| "callable (PCallable c) = True"
| "callable v = False"

section \<open>Subscription identity\<close>

text \<open>The tuple \<^verbatim>\<open>(outobj, methodname, outpath, interval, idstring, persistent)\<close> returned by
  \<^verbatim>\<open>TickerHandler._store_key\<close>.\<close>

type_synonym store_key =
  "pyobj option \<times> string option \<times> string option \<times> int \<times> string \<times> bool"

definition key_obj :: "store_key \<Rightarrow> pyobj option" where
  "key_obj k = (case k of (ob, mn, pa, iv, ids, pers) \<Rightarrow> ob)"

definition key_methodname :: "store_key \<Rightarrow> string option" where
  "key_methodname k = (case k of (ob, mn, pa, iv, ids, pers) \<Rightarrow> mn)"

definition key_path :: "store_key \<Rightarrow> string option" where
  "key_path k = (case k of (ob, mn, pa, iv, ids, pers) \<Rightarrow> pa)"

definition key_interval :: "store_key \<Rightarrow> int" where
  "key_interval k = (case k of (ob, mn, pa, iv, ids, pers) \<Rightarrow> iv)"

definition key_idstring :: "store_key \<Rightarrow> string" where
  "key_idstring k = (case k of (ob, mn, pa, iv, ids, pers) \<Rightarrow> ids)"

definition key_persistent :: "store_key \<Rightarrow> bool" where
  "key_persistent k = (case k of (ob, mn, pa, iv, ids, pers) \<Rightarrow> pers)"

text \<open>\<^verbatim>\<open>store_key[1]\<close>: the component at index 1 of the tuple, as a Python value. It is the
  method name (a string or \<^verbatim>\<open>None\<close>); the interval stands at index 3.\<close>

definition key_item1 :: "store_key \<Rightarrow> pyval" where
  "key_item1 k = (case key_methodname k of None \<Rightarrow> PNone | Some s \<Rightarrow> PStr s)"

section \<open>The looping call\<close>

text \<open>Modelled from the spec: \<^verbatim>\<open>ExtendedLoopingCall\<close> of \<^verbatim>\<open>evennia.scripts.scripts\<close> is not
  among the sources. The spec gives the timer one running/stopped firing handle, started with
  an optional delay that schedules the first firing instead of a full interval, and a time
  remaining until the next scheduled firing. The passing of time is not modelled:
  \<open>next_call_time\<close> is what the handle would report when asked.\<close>

record looping_call =
  running :: bool
  next_call_time :: pyval

definition task_init :: looping_call where
  "task_init = \<lparr>running = False, next_call_time = PNone\<rparr>"

definition task_start :: "int \<Rightarrow> pyval \<Rightarrow> looping_call \<Rightarrow> looping_call" where
  "task_start iv start_delay tk =
     tk\<lparr>running := True,
        next_call_time := (if start_delay = PNone then PInt iv else start_delay)\<rparr>"

definition task_stop :: "looping_call \<Rightarrow> looping_call" where
  "task_stop tk = tk\<lparr>running := False, next_call_time := PNone\<rparr>"

section \<open>Ticker\<close>

record Ticker =
  interval :: int
  subscriptions :: "(store_key \<times> args \<times> kwargs) list"
  task :: looping_call

text \<open>\<^verbatim>\<open>Ticker.__init__\<close>\<close>

definition Ticker_init :: "int \<Rightarrow> Ticker" where
  "Ticker_init iv = \<lparr>interval = iv, subscriptions = [], task = task_init\<rparr>"

text \<open>\<^verbatim>\<open>Ticker.validate\<close>\<close>

definition Ticker_validate :: "pyval \<Rightarrow> Ticker \<Rightarrow> Ticker" where
  "Ticker_validate start_delay t =
     (if running (task t) then
        (if subscriptions t = [] then t\<lparr>task := task_stop (task t)\<rparr> else t)
      else if subscriptions t \<noteq> [] then
        t\<lparr>task := task_start (interval t) start_delay (task t)\<rparr>
      else t)"

text \<open>\<^verbatim>\<open>Ticker.add\<close>: the keyword arguments arrive as a dictionary of their own
  (\<^verbatim>\<open>**kwargs\<close>), so popping \<^verbatim>\<open>_start_delay\<close> does not touch the caller's dictionary.\<close>

definition Ticker_add :: "store_key \<Rightarrow> args \<Rightarrow> kwargs \<Rightarrow> Ticker \<Rightarrow> Ticker" where
  "Ticker_add store_key as kws t =
     (case dict_pop ''_start_delay'' PNone kws of
        (start_delay, kws') \<Rightarrow>
          Ticker_validate start_delay
            (t\<lparr>subscriptions := dict_set store_key (as, kws') (subscriptions t)\<rparr>))"

text \<open>\<^verbatim>\<open>Ticker.remove\<close>\<close>

definition Ticker_remove :: "store_key \<Rightarrow> Ticker \<Rightarrow> Ticker" where
  "Ticker_remove store_key t =
     Ticker_validate PNone (t\<lparr>subscriptions := AList.delete store_key (subscriptions t)\<rparr>)"

text \<open>\<^verbatim>\<open>Ticker.stop\<close>\<close>

definition Ticker_stop :: "Ticker \<Rightarrow> Ticker" where
  "Ticker_stop t = Ticker_validate PNone (t\<lparr>subscriptions := []\<rparr>)"

text \<open>The truth value of a \<^verbatim>\<open>Ticker\<close> instance, as \<^verbatim>\<open>not self.tickers[interval]\<close> asks for
  it: the class defines neither \<^verbatim>\<open>__nonzero__\<close> nor \<^verbatim>\<open>__len__\<close>, so every instance is
  true, whatever its subscriptions.\<close>

definition Ticker_truth :: "Ticker \<Rightarrow> bool" where
  "Ticker_truth t = True"

section \<open>TickerPool\<close>

datatype log_entry =
    TraceRemovingTicker
  | TraceException
  | ErrorMalformedTicker store_key

record TickerPool =
  tickers :: "(int \<times> Ticker) list"

text \<open>\<^verbatim>\<open>TickerPool.__init__\<close>\<close>

definition TickerPool_init :: TickerPool where
  "TickerPool_init = \<lparr>tickers = []\<rparr>"

text \<open>\<^verbatim>\<open>TickerPool.add\<close>. On a zero interval the method means to log and return, but the
  template \<^verbatim>\<open>_ERROR_ADD_TICKER\<close> names its field \<^verbatim>\<open>{storekey}\<close> and \<^verbatim>\<open>format\<close> is called with
  the keyword \<^verbatim>\<open>store_key\<close>: the formatting raises \<^verbatim>\<open>KeyError\<close> before \<^verbatim>\<open>log_err\<close> is
  called, so nothing is logged and the exception leaves the method.\<close>

definition TickerPool_add ::
  "store_key \<Rightarrow> args \<Rightarrow> kwargs \<Rightarrow> TickerPool \<Rightarrow> TickerPool \<times> error option" where
  "TickerPool_add store_key as kws p =
     (let iv = key_interval store_key in
      if iv = 0 then (p, Some KeyError)
      else
        let tickers1 = (if \<not> dict_has iv (tickers p)
                        then dict_set iv (Ticker_init iv) (tickers p)
                        else tickers p)
        in (p\<lparr>tickers := AList.map_entry iv (Ticker_add store_key as kws) tickers1\<rparr>, None))"

text \<open>\<^verbatim>\<open>TickerPool.remove\<close>\<close>

definition TickerPool_remove :: "store_key \<Rightarrow> TickerPool \<Rightarrow> TickerPool" where
  "TickerPool_remove store_key p =
     (let iv = key_interval store_key in
      if dict_has iv (tickers p) then
        let tickers1 = AList.map_entry iv (Ticker_remove store_key) (tickers p)
        in (case map_of tickers1 iv of
              Some t \<Rightarrow>
                if \<not> Ticker_truth t then p\<lparr>tickers := AList.delete iv tickers1\<rparr>
                else p\<lparr>tickers := tickers1\<rparr>
            | None \<Rightarrow> p\<lparr>tickers := tickers1\<rparr>)
      else p)"

text \<open>\<^verbatim>\<open>TickerPool.stop\<close>; \<open>None\<close> is the default \<^verbatim>\<open>interval=None\<close>.\<close>

definition TickerPool_stop :: "int option \<Rightarrow> TickerPool \<Rightarrow> TickerPool" where
  "TickerPool_stop iv p =
     (case iv of
        Some i \<Rightarrow>
          if i \<noteq> 0 \<and> dict_has i (tickers p)
          then p\<lparr>tickers := AList.map_entry i Ticker_stop (tickers p)\<rparr>
          else p\<lparr>tickers := map (\<lambda>(j, t). (j, Ticker_stop t)) (tickers p)\<rparr>
      | None \<Rightarrow> p\<lparr>tickers := map (\<lambda>(j, t). (j, Ticker_stop t)) (tickers p)\<rparr>)"

text \<open>A sequence of \<^verbatim>\<open>TickerPool.add\<close> calls, one per element of the list.\<close>

fun TickerPool_add_all ::
  "(store_key \<times> args \<times> kwargs) list \<Rightarrow> TickerPool \<Rightarrow> TickerPool" where
  "TickerPool_add_all [] p = p"
| "TickerPool_add_all ((k, as, kws) # rest) p =
     TickerPool_add_all rest (fst (TickerPool_add k as kws p))"

text \<open>The number of entries the pool's \<^verbatim>\<open>tickers\<close> mapping holds for an interval.\<close>

definition ticker_count :: "int \<Rightarrow> TickerPool \<Rightarrow> nat" where
  "ticker_count i p = length (filter (\<lambda>e. fst e = i) (tickers p))"

section \<open>A firing of a Ticker\<close>

text \<open>What a call of a subscriber does: it returns, or it raises. \<open>ObjectDoesNotExist\<close> is
  Django's exception; \<open>GenericException\<close> is any other exception deriving from
  \<^verbatim>\<open>Exception\<close>; \<open>BaseExceptionOnly\<close> is one that does not (\<^verbatim>\<open>KeyboardInterrupt\<close>,
  \<^verbatim>\<open>SystemExit\<close>), which no \<^verbatim>\<open>except Exception\<close> clause catches.\<close>

datatype raised = ObjectDoesNotExist | GenericException | BaseExceptionOnly

datatype outcome = Returned | Raised raised

text \<open>The world outside the handler, taken as a parameter: \<open>pk\<close> is the primary key of an
  entity (\<open>None\<close> once the entity is deleted), \<open>call_function\<close> and \<open>call_method\<close> say how a
  call of a callable and of \<^verbatim>\<open>getattr(obj, name)\<close> ends, \<open>variable_from_module\<close> resolves a
  module and a variable name (\<open>None\<close>: it raises). A call is taken to leave the handler, the
  pool and the tickers as they are.\<close>

record env =
  pk :: "nat \<Rightarrow> int option"
  call_function :: "pyval \<Rightarrow> args \<Rightarrow> kwargs \<Rightarrow> outcome"
  call_method :: "pyobj \<Rightarrow> pyval \<Rightarrow> args \<Rightarrow> kwargs \<Rightarrow> outcome"
  variable_from_module :: "string \<Rightarrow> string \<Rightarrow> pyval option"

text \<open>The truth value of a Python value (\<^verbatim>\<open>not obj\<close>) and of a primary key
  (\<^verbatim>\<open>not obj.pk\<close>).\<close>

fun truthy :: "pyval \<Rightarrow> bool" where
  "truthy PNone = False"
| "truthy (PBool b) = b"
| "truthy (PInt i) = (i \<noteq> 0)"
| "truthy (PStr s) = (s \<noteq> [])"
| "truthy v = True"

definition pk_truthy :: "int option \<Rightarrow> bool" where
  "pk_truthy k = (case k of None \<Rightarrow> False | Some i \<Rightarrow> i \<noteq> 0)"

text \<open>The body of the \<^verbatim>\<open>try\<close> block of \<^verbatim>\<open>Ticker._callback\<close> for one subscription:
  \<open>Marked\<close> is the branch that appends the key to \<^verbatim>\<open>to_remove\<close> and continues, \<open>Finished\<close> is
  how the rest ended; the flag says whether the subscriber was called. Reading \<^verbatim>\<open>pk\<close> off
  a true value that is no object raises \<^verbatim>\<open>AttributeError\<close>.\<close>

datatype tried = Marked | Finished outcome

definition try_block :: "env \<Rightarrow> pyval \<Rightarrow> pyval \<Rightarrow> args \<Rightarrow> kwargs \<Rightarrow> bool \<times> tried" where
  "try_block e callback obj as kws =
     (if callable callback then (True, Finished (call_function e callback as kws))
      else if \<not> truthy obj then (False, Marked)
      else (case obj of
              PObj ob \<Rightarrow>
                if \<not> pk_truthy (pk e (ident ob)) then (False, Marked)
                else (True, Finished (call_method e ob callback as kws))
            | _ \<Rightarrow> (False, Finished (Raised GenericException))))"

text \<open>One pass of the loop body of \<^verbatim>\<open>Ticker._callback\<close>: pop the two reserved keys, run the
  \<^verbatim>\<open>try\<close> block, handle what it raised, put the reserved keys back (\<^verbatim>\<open>finally\<close>).\<close>

record step =
  s_kwargs :: kwargs
  s_remove :: bool
  s_log :: "log_entry list"
  s_called :: bool
  s_exc :: "raised option"

definition sub_try :: "env \<Rightarrow> args \<Rightarrow> kwargs \<Rightarrow> bool \<times> tried" where
  "sub_try e as kws =
     (case dict_pop ''_callback'' (PStr ''at_tick'') kws of
        (callback, kws1) \<Rightarrow>
          (case dict_pop ''_obj'' PNone kws1 of
             (obj, kws2) \<Rightarrow> try_block e callback obj as kws2))"

definition restored_kwargs :: "kwargs \<Rightarrow> kwargs" where
  "restored_kwargs kws =
     (case dict_pop ''_callback'' (PStr ''at_tick'') kws of
        (callback, kws1) \<Rightarrow>
          (case dict_pop ''_obj'' PNone kws1 of
             (obj, kws2) \<Rightarrow> dict_set ''_obj'' obj (dict_set ''_callback'' callback kws2)))"

definition fire_one :: "env \<Rightarrow> args \<Rightarrow> kwargs \<Rightarrow> step" where
  "fire_one e as kws =
     (let kws' = restored_kwargs kws in
      case sub_try e as kws of
        (called, Marked) \<Rightarrow>
          \<lparr>s_kwargs = kws', s_remove = True, s_log = [], s_called = called, s_exc = None\<rparr>
      | (called, Finished Returned) \<Rightarrow>
          \<lparr>s_kwargs = kws', s_remove = False, s_log = [], s_called = called, s_exc = None\<rparr>
      | (called, Finished (Raised ObjectDoesNotExist)) \<Rightarrow>
          \<lparr>s_kwargs = kws', s_remove = True, s_log = [TraceRemovingTicker],
           s_called = called, s_exc = None\<rparr>
      | (called, Finished (Raised GenericException)) \<Rightarrow>
          \<lparr>s_kwargs = kws', s_remove = False, s_log = [TraceException],
           s_called = called, s_exc = None\<rparr>
      | (called, Finished (Raised BaseExceptionOnly)) \<Rightarrow>
          \<lparr>s_kwargs = kws', s_remove = False, s_log = [],
           s_called = called, s_exc = Some BaseExceptionOnly\<rparr>)"

text \<open>The loop of \<^verbatim>\<open>Ticker._callback\<close> over the subscriptions: the subscriptions with the
  keyword dictionaries as the loop leaves them, the keys marked for removal, the log, the keys
  of the subscribers called, and the exception that ended the loop early, if one did.\<close>

record firing =
  f_subs :: "(store_key \<times> args \<times> kwargs) list"
  f_to_remove :: "store_key list"
  f_log :: "log_entry list"
  f_called :: "store_key list"
  f_exc :: "raised option"

fun fire_loop :: "env \<Rightarrow> (store_key \<times> args \<times> kwargs) list \<Rightarrow> firing" where
  "fire_loop e [] =
     \<lparr>f_subs = [], f_to_remove = [], f_log = [], f_called = [], f_exc = None\<rparr>"
| "fire_loop e ((k, as, kws) # rest) =
     (let s = fire_one e as kws;
          here = (k, as, s_kwargs s);
          rm = (if s_remove s then [k] else []);
          cl = (if s_called s then [k] else [])
      in case s_exc s of
           Some x \<Rightarrow>
             \<lparr>f_subs = here # rest, f_to_remove = rm, f_log = s_log s, f_called = cl,
              f_exc = Some x\<rparr>
         | None \<Rightarrow>
             (let f = fire_loop e rest
              in \<lparr>f_subs = here # f_subs f, f_to_remove = rm @ f_to_remove f,
                  f_log = s_log s @ f_log f, f_called = cl @ f_called f,
                  f_exc = f_exc f\<rparr>))"

text \<open>The cleanup loop: \<^verbatim>\<open>for store_key in to_remove: self.remove(store_key)\<close>.\<close>

fun remove_all :: "store_key list \<Rightarrow> Ticker \<Rightarrow> Ticker" where
  "remove_all [] t = t"
| "remove_all (k # ks) t = remove_all ks (Ticker_remove k t)"

text \<open>\<^verbatim>\<open>Ticker._callback\<close>: the ticker afterwards, with what the firing logged, whom it called
  and the exception it let through. An exception that leaves the loop skips the cleanup.\<close>

record fired =
  ticker_after :: Ticker
  fired_log :: "log_entry list"
  fired_called :: "store_key list"
  fired_exc :: "raised option"

definition Ticker_callback :: "env \<Rightarrow> Ticker \<Rightarrow> fired" where
  "Ticker_callback e t =
     (let f = fire_loop e (subscriptions t);
          t1 = t\<lparr>subscriptions := f_subs f\<rparr>
      in \<lparr>ticker_after = (case f_exc f of None \<Rightarrow> remove_all (f_to_remove f) t1 | Some x \<Rightarrow> t1),
          fired_log = f_log f, fired_called = f_called f, fired_exc = f_exc f\<rparr>)"

section \<open>TickerHandler\<close>

text \<open>A value of the registry table \<^verbatim>\<open>ticker_storage\<close>: the pair \<^verbatim>\<open>(args, kwargs)\<close> that
  \<^verbatim>\<open>add\<close> and \<^verbatim>\<open>restore\<close> store, or a store key, which is what \<^verbatim>\<open>clear\<close> stores.\<close>

datatype entry = Payload args kwargs | KeyEntry store_key

text \<open>Modelled from the spec: \<^verbatim>\<open>ServerConfig\<close>, \<^verbatim>\<open>dbserialize\<close>, \<^verbatim>\<open>dbunserialize\<close>,
  \<^verbatim>\<open>log_err\<close> and \<^verbatim>\<open>log_trace\<close> are not among the sources. The spec has a durable key/value
  store that holds, under a fixed name, the serialized mapping of subscription identity to
  \<^verbatim>\<open>(args, kwargs)\<close>: \<open>server_config\<close> is that store, and the serialized mapping is kept as a
  copy of the table at the moment of the write. \<open>log\<close> collects what the two logging
  functions are sent. The handler's own fields are \<open>ticker_storage\<close>, \<open>save_name\<close> and
  \<open>ticker_pool\<close>.\<close>

record TickerHandler =
  ticker_storage :: "(store_key \<times> entry) list"
  save_name :: string
  ticker_pool :: TickerPool
  server_config :: "(string \<times> (store_key \<times> entry) list) list"
  log :: "log_entry list"

text \<open>\<^verbatim>\<open>TickerHandler.__init__\<close>, beside a given content of the store.\<close>

definition TickerHandler_init ::
  "string \<Rightarrow> (string \<times> (store_key \<times> entry) list) list \<Rightarrow> TickerHandler" where
  "TickerHandler_init name conf =
     \<lparr>ticker_storage = [], save_name = name, ticker_pool = TickerPool_init,
      server_config = conf, log = []\<rparr>"

text \<open>\<^verbatim>\<open>TickerHandler._get_callback\<close>: \<^verbatim>\<open>(obj, path, callfunc)\<close>, or the \<^verbatim>\<open>TypeError\<close> it
  raises.\<close>

definition TickerHandler_get_callback ::
  "pyval \<Rightarrow> error + (pyobj option \<times> string option \<times> pyval)" where
  "TickerHandler_get_callback callback =
     (if callable callback then
        (case callback of
           PMethod ob name \<Rightarrow> Inr (Some ob, None, PStr name)
         | PFunc m f \<Rightarrow> Inr (None, Some (m @ ''.'' @ f), callback)
         | _ \<Rightarrow> Inr (None, None, PNone))
      else Inl TypeError)"

text \<open>\<^verbatim>\<open>TickerHandler._store_key\<close>. The interval is taken as the integer \<^verbatim>\<open>int(interval)\<close>
  gives, the flag as the boolean \<^verbatim>\<open>bool(persistent)\<close> gives.\<close>

definition TickerHandler_store_key ::
  "pyobj option \<Rightarrow> string option \<Rightarrow> int \<Rightarrow> pyval \<Rightarrow> string \<Rightarrow> bool \<Rightarrow> store_key" where
  "TickerHandler_store_key obj path iv callfunc idstring persistent =
     (let outobj = (case obj of
                      Some ob \<Rightarrow> if has_db_key ob then Some ob else None
                    | None \<Rightarrow> None);
          outpath = (case path of
                       Some s \<Rightarrow> if s \<noteq> [] then Some s else None
                     | None \<Rightarrow> None);
          methodname = (case callfunc of
                          PStr s \<Rightarrow> if s \<noteq> [] then Some s else None
                        | _ \<Rightarrow> None)
      in (outobj, methodname, outpath, iv, idstring, persistent))"

text \<open>The loop of \<^verbatim>\<open>TickerHandler.save\<close> over \<^verbatim>\<open>self.ticker_storage.items()\<close>. The loop header
  unpacks each value into \<^verbatim>\<open>(args, kwargs)\<close>, which raises \<^verbatim>\<open>ValueError\<close> on a store key (a
  tuple of six); the dictionaries changed before that stay changed. The delay is looked up
  under \<^verbatim>\<open>store_key[1]\<close>.\<close>

fun save_loop ::
  "(pyval \<times> pyval) list \<Rightarrow> (store_key \<times> entry) list \<Rightarrow>
   (store_key \<times> entry) list \<times> error option" where
  "save_loop start_delays [] = ([], None)"
| "save_loop start_delays ((k, Payload as kws) # rest) =
     (case save_loop start_delays rest of
        (rest', err) \<Rightarrow>
          ((k, Payload as
                 (dict_set ''_start_delay'' (dict_get (key_item1 k) PNone start_delays) kws))
             # rest', err))"
| "save_loop start_delays ((k, KeyEntry k') # rest) =
     ((k, KeyEntry k') # rest, Some ValueError)"

text \<open>\<^verbatim>\<open>TickerHandler.save\<close>\<close>

definition TickerHandler_save :: "TickerHandler \<Rightarrow> TickerHandler \<times> error option" where
  "TickerHandler_save h =
     (if ticker_storage h \<noteq> [] then
        (let start_delays =
               map (\<lambda>(iv, ticker). (PInt iv, next_call_time (task ticker)))
                 (tickers (ticker_pool h))
         in case save_loop start_delays (ticker_storage h) of
              (tbl, Some err) \<Rightarrow> (h\<lparr>ticker_storage := tbl\<rparr>, Some err)
            | (tbl, None) \<Rightarrow>
                (h\<lparr>ticker_storage := tbl,
                   server_config := dict_set (save_name h) tbl (server_config h)\<rparr>, None))
      else (h\<lparr>server_config := AList.delete (save_name h) (server_config h)\<rparr>, None))"

text \<open>\<^verbatim>\<open>path.rsplit(".", 1)\<close> unpacked into two names: the parts before and after the last
  dot, or \<open>None\<close> where there is no dot and the unpacking raises.\<close>

definition rsplit_dot :: "string \<Rightarrow> (string \<times> string) option" where
  "rsplit_dot s =
     (if CHR ''.'' \<in> set s
      then Some (rev (tl (dropWhile (\<lambda>c. c \<noteq> CHR ''.'') (rev s))),
                 rev (takeWhile (\<lambda>c. c \<noteq> CHR ''.'') (rev s)))
      else None)"

text \<open>The \<^verbatim>\<open>try\<close> block of \<^verbatim>\<open>TickerHandler.restore\<close> for one entry: \<open>Skip\<close> leaves the entry
  out (with what the \<^verbatim>\<open>except\<close> clause logged, nothing on the \<^verbatim>\<open>continue\<close> of a
  non-persistent entry), \<open>Keep\<close> goes on with the keyword dictionary as the block set it.\<close>

datatype restored = Skip "log_entry list" | Keep kwargs

definition restore_entry :: "env \<Rightarrow> bool \<Rightarrow> store_key \<Rightarrow> kwargs \<Rightarrow> restored" where
  "restore_entry e server_reload store_key kws =
     (case store_key of
        (obj, methodname, path, iv, idstring, persistent) \<Rightarrow>
          if \<not> persistent \<and> \<not> server_reload then Skip []
          else if obj \<noteq> None \<and> methodname \<noteq> None \<and> methodname \<noteq> Some [] then
            Keep (dict_set ''_obj'' (case obj of Some ob \<Rightarrow> PObj ob | None \<Rightarrow> PNone)
                   (dict_set ''_callback''
                      (case methodname of Some s \<Rightarrow> PStr s | None \<Rightarrow> PNone) kws))
          else if path \<noteq> None \<and> path \<noteq> Some [] then
            (case rsplit_dot (case path of Some s \<Rightarrow> s | None \<Rightarrow> []) of
               None \<Rightarrow> Skip [ErrorMalformedTicker store_key]
             | Some (modname, varname) \<Rightarrow>
                 (case variable_from_module e modname varname of
                    None \<Rightarrow> Skip [ErrorMalformedTicker store_key]
                  | Some callback \<Rightarrow>
                      Keep (dict_set ''_obj'' PNone (dict_set ''_callback'' callback kws))))
          else Keep kws)"

text \<open>The loop of \<^verbatim>\<open>TickerHandler.restore\<close>; \<open>local\<close> is the local dictionary
  \<^verbatim>\<open>ticker_storage\<close>, assigned to the handler each time an entry is kept. The call of the
  pool's \<^verbatim>\<open>add\<close> stands after the \<^verbatim>\<open>try\<close> block: an exception it raises leaves
  \<^verbatim>\<open>restore\<close>, and the entries after it are not looked at.\<close>

fun restore_loop ::
  "env \<Rightarrow> bool \<Rightarrow> (store_key \<times> entry) list \<Rightarrow> (store_key \<times> entry) list \<Rightarrow>
   TickerHandler \<Rightarrow> TickerHandler \<times> error option" where
  "restore_loop e server_reload [] local h = (h, None)"
| "restore_loop e server_reload ((k, KeyEntry k') # rest) local h = (h, Some ValueError)"
| "restore_loop e server_reload ((k, Payload as kws) # rest) local h =
     (case restore_entry e server_reload k kws of
        Skip msgs \<Rightarrow> restore_loop e server_reload rest local (h\<lparr>log := log h @ msgs\<rparr>)
      | Keep kws' \<Rightarrow>
          (let local' = dict_set k (Payload as kws') local;
               h1 = h\<lparr>ticker_storage := local'\<rparr>
           in case TickerPool_add k as kws' (ticker_pool h1) of
                (p, Some err) \<Rightarrow> (h1\<lparr>ticker_pool := p\<rparr>, Some err)
              | (p, None) \<Rightarrow>
                  restore_loop e server_reload rest local' (h1\<lparr>ticker_pool := p\<rparr>)))"

text \<open>\<^verbatim>\<open>TickerHandler.restore\<close>: nothing happens where the store holds no record under the
  name; a record is a non-empty serialized value, so the test on it succeeds. The entities of
  the keys are taken as \<^verbatim>\<open>dbunserialize\<close> hands them back.\<close>

definition TickerHandler_restore ::
  "env \<Rightarrow> bool \<Rightarrow> TickerHandler \<Rightarrow> TickerHandler \<times> error option" where
  "TickerHandler_restore e server_reload h =
     (case map_of (server_config h) (save_name h) of
        None \<Rightarrow> (h, None)
      | Some restored_tickers \<Rightarrow> restore_loop e server_reload restored_tickers [] h)"

text \<open>The keyword dictionary stored in the table under a key, as \<^verbatim>\<open>add\<close> still holds it
  after \<^verbatim>\<open>save\<close> has changed it in place.\<close>

definition table_kwargs :: "store_key \<Rightarrow> kwargs \<Rightarrow> (store_key \<times> entry) list \<Rightarrow> kwargs" where
  "table_kwargs k kws tbl = (case map_of tbl k of Some (Payload as' kws') \<Rightarrow> kws' | _ \<Rightarrow> kws)"

text \<open>\<^verbatim>\<open>TickerHandler.add\<close>. The dictionary \<^verbatim>\<open>kwargs\<close> is the one stored in the table, so what
  \<^verbatim>\<open>save\<close> and the two assignments after it write is written in the table; the pool is handed
  a copy, and an exception of the pool's \<^verbatim>\<open>add\<close> leaves \<^verbatim>\<open>add\<close>. Keyword names are taken not
  to collide with the parameter names of the pool's \<^verbatim>\<open>add\<close>.\<close>

definition TickerHandler_add ::
  "int \<Rightarrow> pyval \<Rightarrow> string \<Rightarrow> bool \<Rightarrow> args \<Rightarrow> kwargs \<Rightarrow> TickerHandler \<Rightarrow>
   TickerHandler \<times> error option" where
  "TickerHandler_add iv callback idstring persistent as kws h =
     (case TickerHandler_get_callback callback of
        Inl err \<Rightarrow> (h, Some err)
      | Inr (obj, path, callfunc) \<Rightarrow>
          (let store_key = TickerHandler_store_key obj path iv callfunc idstring persistent;
               h1 = h\<lparr>ticker_storage := dict_set store_key (Payload as kws) (ticker_storage h)\<rparr>
           in case TickerHandler_save h1 of
                (h2, Some err) \<Rightarrow> (h2, Some err)
              | (h2, None) \<Rightarrow>
                  (let kws2 = dict_set ''_callback'' callfunc
                               (dict_set ''_obj'' (case obj of Some ob \<Rightarrow> PObj ob | None \<Rightarrow> PNone)
                                  (table_kwargs store_key kws (ticker_storage h2)));
                       h3 = h2\<lparr>ticker_storage :=
                                 AList.map_entry store_key (\<lambda>v. Payload as kws2)
                                   (ticker_storage h2)\<rparr>
                   in case TickerPool_add store_key as kws2 (ticker_pool h3) of
                        (p, err) \<Rightarrow> (h3\<lparr>ticker_pool := p\<rparr>, err))))"

text \<open>\<^verbatim>\<open>TickerHandler.remove\<close>. The key is built with \<^verbatim>\<open>persistent\<close> at its default
  \<^verbatim>\<open>True\<close>. A popped value is a non-empty tuple, so it is true.\<close>

definition TickerHandler_remove ::
  "int \<Rightarrow> pyval \<Rightarrow> string \<Rightarrow> TickerHandler \<Rightarrow> TickerHandler \<times> error option" where
  "TickerHandler_remove iv callback idstring h =
     (case TickerHandler_get_callback callback of
        Inl err \<Rightarrow> (h, Some err)
      | Inr (obj, path, callfunc) \<Rightarrow>
          (let store_key = TickerHandler_store_key obj path iv callfunc idstring True;
               to_remove = map_of (ticker_storage h) store_key;
               h1 = h\<lparr>ticker_storage := AList.delete store_key (ticker_storage h)\<rparr>
           in case to_remove of
                None \<Rightarrow> (h1, None)
              | Some v \<Rightarrow>
                  TickerHandler_save
                    (h1\<lparr>ticker_pool := TickerPool_remove store_key (ticker_pool h1)\<rparr>)))"

text \<open>\<^verbatim>\<open>TickerHandler.clear\<close>. The comprehension keeps the keys with
  \<^verbatim>\<open>store_key[1] != interval\<close> and stores each key as its own value.\<close>

definition TickerHandler_clear ::
  "int option \<Rightarrow> TickerHandler \<Rightarrow> TickerHandler \<times> error option" where
  "TickerHandler_clear iv h =
     (let h1 = h\<lparr>ticker_pool := TickerPool_stop iv (ticker_pool h)\<rparr>;
          kept = (case iv of
                    Some i \<Rightarrow>
                      if i \<noteq> 0
                      then map (\<lambda>(k, v). (k, KeyEntry k))
                             (filter (\<lambda>(k, v). key_item1 k \<noteq> PInt i) (ticker_storage h1))
                      else []
                  | None \<Rightarrow> [])
      in TickerHandler_save (h1\<lparr>ticker_storage := kept\<rparr>))"

text \<open>\<^verbatim>\<open>TickerHandler.all\<close>: the dictionary returned, or \<open>None\<close> where the method falls off
  its end.\<close>

definition TickerHandler_all ::
  "int option \<Rightarrow> TickerHandler \<Rightarrow> (int \<times> (store_key \<times> args \<times> kwargs) list) list option" where
  "TickerHandler_all iv h =
     (case iv of
        None \<Rightarrow> Some (map (\<lambda>(i, ticker). (i, subscriptions ticker)) (tickers (ticker_pool h)))
      | Some i \<Rightarrow>
          (case map_of (tickers (ticker_pool h)) i of
             Some ticker \<Rightarrow>
               if Ticker_truth ticker then Some [(i, subscriptions ticker)] else None
           | None \<Rightarrow> None))"


text \<open>The store keys a result of \<^verbatim>\<open>all\<close> reports.\<close>

definition all_keys :: "(int \<times> (store_key \<times> args \<times> kwargs) list) list option \<Rightarrow> store_key set" where
  "all_keys r = (case r of None \<Rightarrow> {} | Some d \<Rightarrow> (\<Union>(i, subs) \<in> set d. fst ` set subs))"

text \<open>The reactor runs the looping call of the ticker the pool holds for an interval: the
  ticker's \<^verbatim>\<open>_callback\<close> fires, on the ticker object in the pool.\<close>

definition fire_interval :: "env \<Rightarrow> int \<Rightarrow> TickerHandler \<Rightarrow> TickerHandler \<times> raised option" where
  "fire_interval e i h =
     (case map_of (tickers (ticker_pool h)) i of
        None \<Rightarrow> (h, None)
      | Some t \<Rightarrow>
          (let r = Ticker_callback e t
           in (h\<lparr>ticker_pool := (ticker_pool h)\<lparr>tickers :=
                     AList.map_entry i (\<lambda>t. ticker_after r) (tickers (ticker_pool h))\<rparr>,
                 log := log h @ fired_log r\<rparr>,
               fired_exc r)))"

text \<open>The store keys the ticker of an interval holds in the pool.\<close>

definition pool_keys :: "int \<Rightarrow> TickerPool \<Rightarrow> store_key set" where
  "pool_keys i p =
     (case map_of (tickers p) i of None \<Rightarrow> {} | Some t \<Rightarrow> fst ` set (subscriptions t))"

text \<open>No subscriber of the list ends its call with an exception that \<^verbatim>\<open>except Exception\<close>
  lets through.\<close>

definition no_base_exc :: "env \<Rightarrow> (store_key \<times> args \<times> kwargs) list \<Rightarrow> bool" where
  "no_base_exc e subs =
     (\<forall>(k, as, kws) \<in> set subs. snd (sub_try e as kws) \<noteq> Finished (Raised BaseExceptionOnly))"

text \<open>Every ticker of the pool holds only store keys of its own interval, as
  \<^verbatim>\<open>TickerPool.add\<close> routes them.\<close>

definition pool_routed :: "TickerPool \<Rightarrow> bool" where
  "pool_routed p =
     (\<forall>(j, t) \<in> set (tickers p). \<forall>s \<in> set (subscriptions t). key_interval (fst s) = j)"

text \<open>What \<^verbatim>\<open>save\<close> does to a value of the table that unpacks: the delay it stores is the
  result of the lookup under \<^verbatim>\<open>store_key[1]\<close>, which is \<^verbatim>\<open>None\<close>.\<close>

definition stamp :: "entry \<Rightarrow> entry" where
  "stamp v = (case v of Payload as kws \<Rightarrow> Payload as (dict_set ''_start_delay'' PNone kws)
                      | KeyEntry k \<Rightarrow> KeyEntry k)"



text \<open>Every value of the table is a pair \<^verbatim>\<open>(args, kwargs)\<close>, as in the spec's data model.\<close>

definition table_ok :: "(store_key \<times> entry) list \<Rightarrow> bool" where
  "table_ok tbl =
     (\<forall>(k, v) \<in> set tbl. case v of Payload as kws \<Rightarrow> True | KeyEntry k' \<Rightarrow> False)"





section \<open>Sample inputs\<close>

text \<open>A world in which entity 1 has been deleted, the function \<^verbatim>\<open>world.boom\<close> raises an
  exception, every other call returns, and the module \<^verbatim>\<open>world\<close> is the only one that can be
  imported.\<close>

definition sample_env :: env where
  "sample_env =
     \<lparr>pk = (\<lambda>n. if n = 1 then None else Some (int n)),
      call_function =
        (\<lambda>f as kws. if f = PFunc ''world'' ''boom'' then Raised GenericException else Returned),
      call_method = (\<lambda>ob m as kws. Returned),
      variable_from_module = (\<lambda>m v. if m = ''world'' then Some (PFunc m v) else None)\<rparr>"

text \<open>A running ticker of interval 10 with three subscribers: the function \<^verbatim>\<open>world.boom\<close>,
  the method \<^verbatim>\<open>at_tick\<close> of entity 1 and the method \<^verbatim>\<open>at_tick\<close> of entity 2; and a handler
  whose pool holds it.\<close>

definition sample_ticker :: Ticker where
  "sample_ticker =
     \<lparr>interval = 10,
      subscriptions =
        [((None, None, Some ''world.boom'', 10, '''', True), [],
          [(''_obj'', PNone), (''_callback'', PFunc ''world'' ''boom'')]),
         ((Some (PyObj 1 True), Some ''at_tick'', None, 10, '''', True), [PInt 5],
          [(''_obj'', PObj (PyObj 1 True)), (''_callback'', PStr ''at_tick'')]),
         ((Some (PyObj 2 True), Some ''at_tick'', None, 10, '''', True), [],
          [(''_obj'', PObj (PyObj 2 True)), (''_callback'', PStr ''at_tick'')])],
      task = \<lparr>running = True, next_call_time = PInt 10\<rparr>\<rparr>"

definition sample_handler :: TickerHandler where
  "sample_handler =
     \<lparr>ticker_storage = [], save_name = ''ticker_storage'',
      ticker_pool = \<lparr>tickers = [(10, sample_ticker)]\<rparr>, server_config = [], log = []\<rparr>"

section \<open>Evaluation\<close>

lemmas dict_defs = dict_set_def dict_get_def dict_pop_def dict_has_def

lemmas key_defs = key_item1_def key_methodname_def key_interval_def key_persistent_def
  key_obj_def key_path_def key_idstring_def

lemmas ticker_defs = Ticker_add_def Ticker_init_def Ticker_validate_def Ticker_remove_def
  Ticker_stop_def Ticker_truth_def task_init_def task_start_def task_stop_def

lemmas pool_defs = TickerPool_add_def TickerPool_init_def TickerPool_remove_def
  TickerPool_stop_def

lemmas firing_defs = sub_try_def try_block_def fire_one_def restored_kwargs_def
  Ticker_callback_def fire_interval_def pk_truthy_def no_base_exc_def

lemmas handler_defs = TickerHandler_add_def TickerHandler_init_def
  TickerHandler_get_callback_def TickerHandler_store_key_def TickerHandler_save_def
  TickerHandler_clear_def TickerHandler_remove_def table_kwargs_def

section \<open>The pool: one ticker per interval\<close>

lemma count_distinct_keys:
  "distinct (map fst al) \<Longrightarrow>
   length (filter (\<lambda>e. fst e = i) al) = (if i \<in> fst ` set al then 1 else 0)"
  by (induction al) (auto simp: image_iff)

lemma map_of_map_entry_same:
  "map_of (AList.map_entry k f xs) k = map_option f (map_of xs k)"
  by (simp add: AList.map_of_map_entry split: option.splits)


lemma Ticker_validate_subscriptions [simp]:
  "subscriptions (Ticker_validate d t) = subscriptions t"
  by (simp add: Ticker_validate_def)

lemma Ticker_add_keys:
  "fst ` set (subscriptions (Ticker_add k as kws t)) = insert k (fst ` set (subscriptions t))"
  by (simp add: Ticker_add_def dict_pop_def dict_set_def AList.dom_update)

lemma TickerPool_add_keys:
  "key_interval k \<noteq> 0 \<Longrightarrow>
   fst ` set (tickers (fst (TickerPool_add k as kws p))) =
     insert (key_interval k) (fst ` set (tickers p))"
  by (auto simp: TickerPool_add_def Let_def dict_has_def dict_set_def AList.dom_map_entry
      AList.dom_update map_of_eq_None_iff)

lemma TickerPool_add_distinct:
  "distinct (map fst (tickers p)) \<Longrightarrow>
   distinct (map fst (tickers (fst (TickerPool_add k as kws p))))"
  by (simp add: TickerPool_add_def Let_def dict_set_def AList.distinct_map_entry
      AList.distinct_update)

lemma TickerPool_add_pool_keys:
  "key_interval k \<noteq> 0 \<Longrightarrow>
   pool_keys (key_interval k) (fst (TickerPool_add k as kws p)) =
     insert k (pool_keys (key_interval k) p)"
  by (auto simp: pool_keys_def TickerPool_add_def Let_def dict_has_def dict_set_def
      map_of_map_entry_same AList.update_conv' Ticker_add_keys Ticker_init_def
      split: option.splits)

lemma TickerPool_add_all_props:
  "distinct (map fst (tickers p)) \<Longrightarrow> \<forall>e \<in> set ks. key_interval (fst e) = i \<Longrightarrow> i \<noteq> 0 \<Longrightarrow>
   distinct (map fst (tickers (TickerPool_add_all ks p))) \<and>
   fst ` set (tickers (TickerPool_add_all ks p)) =
     (if ks = [] then {} else {i}) \<union> fst ` set (tickers p) \<and>
   pool_keys i (TickerPool_add_all ks p) = fst ` set ks \<union> pool_keys i p"
proof (induction ks arbitrary: p)
  case Nil
  then show ?case by simp
next
  case (Cons e ks)
  obtain k as kws where e: "e = (k, as, kws)" by (cases e)
  from Cons.prems e have ki: "key_interval k = i" by simp
  let ?p = "fst (TickerPool_add k as kws p)"
  have d: "distinct (map fst (tickers ?p))"
    using Cons.prems(1) by (rule TickerPool_add_distinct)
  have "\<forall>e \<in> set ks. key_interval (fst e) = i" using Cons.prems(2) by simp
  from Cons.IH [OF d this Cons.prems(3)]
  show ?case
    using TickerPool_add_keys [of k as kws p] TickerPool_add_pool_keys [of k as kws p] ki
      Cons.prems(3) e
    by auto
qed

text \<open>
  Claim C1. Take a pool whose \<^verbatim>\<open>tickers\<close> dictionary has pairwise different keys, and any
  non-empty sequence of \<^verbatim>\<open>TickerPool.add\<close> calls whose store keys all carry the same non-zero
  interval \<open>i\<close>. Afterwards the \<^verbatim>\<open>tickers\<close> mapping holds exactly one entry for \<open>i\<close>, however many
  store keys were added, and the ticker of that entry holds every one of them.
\<close>

theorem pool_one_ticker_per_interval:
  assumes "distinct (map fst (tickers p))"
    and "ks \<noteq> []"
    and "\<forall>e \<in> set ks. key_interval (fst e) = i"
    and "i \<noteq> 0"
  shows "ticker_count i (TickerPool_add_all ks p) = 1 \<and>
         fst ` set ks \<subseteq> pool_keys i (TickerPool_add_all ks p)"
  using TickerPool_add_all_props [OF assms(1) assms(3) assms(4)] assms(2)
  by (simp add: ticker_count_def count_distinct_keys)

theorem pool_one_ticker_per_interval_witness:
  "ticker_count 15
     (TickerPool_add_all
        [((Some (PyObj 1 True), Some ''at_tick'', None, 15, '''', True), [], []),
         ((Some (PyObj 2 True), Some ''at_tick'', None, 15, '''', True), [PInt 3], []),
         ((None, None, Some ''world.weather.tick'', 15, ''w'', False), [], [])]
        TickerPool_init) = 1"
  using pool_one_ticker_per_interval
    [of TickerPool_init
        "[((Some (PyObj 1 True), Some ''at_tick'', None, 15, '''', True), [], []),
          ((Some (PyObj 2 True), Some ''at_tick'', None, 15, '''', True), [PInt 3], []),
          ((None, None, Some ''world.weather.tick'', 15, ''w'', False), [], [])]" 15]
  by (simp add: TickerPool_init_def key_interval_def)

text \<open>
  Claim C2. The claim asks that removing the last subscription of an interval removes the
  pool's ticker for it. \<^verbatim>\<open>TickerPool.remove\<close> tests \<^verbatim>\<open>not self.tickers[interval]\<close>, the truth
  value of the ticker object, which is always true: the entry is never deleted. A pool that
  holds one subscription at interval 15 still holds a ticker for 15 after that subscription
  is removed, with no subscription and a stopped task.
\<close>

theorem pool_remove_last_keeps_ticker:
  "TickerPool_remove (Some (PyObj 1 True), Some ''at_tick'', None, 15, '''', True)
     (fst (TickerPool_add (Some (PyObj 1 True), Some ''at_tick'', None, 15, '''', True) [] []
        TickerPool_init))
   = \<lparr>tickers = [(15, \<lparr>interval = 15, subscriptions = [],
                        task = \<lparr>running = False, next_call_time = PNone\<rparr>\<rparr>)]\<rparr>"
  by (simp add: pool_defs ticker_defs dict_defs key_defs)

lemma TickerPool_remove_keeps_entries:
  "fst ` set (tickers (TickerPool_remove k p)) = fst ` set (tickers p)"
  by (simp add: TickerPool_remove_def Let_def Ticker_truth_def AList.dom_map_entry
      split: option.splits)

section \<open>Saving and clearing\<close>

text \<open>The dictionary \<^verbatim>\<open>start_delays\<close> is keyed by intervals, and \<^verbatim>\<open>save\<close> looks a method name
  up in it: the lookup finds nothing, whatever the pool holds.\<close>

lemma start_delays_miss:
  "dict_get (key_item1 k) PNone
     (map (\<lambda>(iv, ticker). (PInt iv, next_call_time (task ticker))) ts) = PNone"
  by (induction ts) (auto simp: dict_get_def key_item1_def split: option.splits)

lemma save_loop_start_delay:
  "save_loop (map (\<lambda>(iv, ticker). (PInt iv, next_call_time (task ticker))) ts) tbl
     = (tbl', None) \<Longrightarrow>
   (k, Payload as kws) \<in> set tbl' \<Longrightarrow> map_of kws ''_start_delay'' = Some PNone"
proof (induction tbl arbitrary: tbl')
  case Nil
  then show ?case by simp
next
  case (Cons e tbl)
  obtain k0 v0 where e: "e = (k0, v0)" by (cases e)
  show ?case
  proof (cases v0)
    case (Payload as0 kws0)
    with Cons.prems e show ?thesis
      by (auto simp: start_delays_miss dict_set_def AList.update_conv'
          split: prod.splits dest: Cons.IH)
  next
    case (KeyEntry k')
    with Cons.prems e show ?thesis by simp
  qed
qed

lemma save_never_stores_delay:
  "TickerHandler_save h = (h', None) \<Longrightarrow> (k, Payload as kws) \<in> set (ticker_storage h') \<Longrightarrow>
   map_of kws ''_start_delay'' = Some PNone"
  by (auto simp: TickerHandler_save_def Let_def split: if_splits prod.splits option.splits
      dest: save_loop_start_delay)

text \<open>
  Claim C3. The claim asks that \<^verbatim>\<open>save\<close> stores, on every subscription, the time remaining
  until the next firing of its interval as \<^verbatim>\<open>_start_delay\<close>. \<^verbatim>\<open>save\<close> reads the interval as
  \<^verbatim>\<open>store_key[1]\<close>, which is the method name, so the lookup in \<^verbatim>\<open>start_delays\<close> misses and
  \<^verbatim>\<open>None\<close> is stored. Here one subscription at interval 15 is registered and its ticker
  reports 7 seconds until the next firing: the table and the persisted record end with
  \<^verbatim>\<open>_start_delay\<close> set to \<^verbatim>\<open>None\<close>, not to 7.
\<close>

theorem save_drops_phase:
  "TickerHandler_save
     \<lparr>ticker_storage =
        [((Some (PyObj 1 True), Some ''at_tick'', None, 15, '''', True),
          Payload [] [(''_start_delay'', PNone), (''_obj'', PObj (PyObj 1 True)),
                      (''_callback'', PStr ''at_tick'')])],
      save_name = ''ticker_storage'',
      ticker_pool =
        \<lparr>tickers =
           [(15, \<lparr>interval = 15,
                  subscriptions =
                    [((Some (PyObj 1 True), Some ''at_tick'', None, 15, '''', True), [],
                      [(''_obj'', PObj (PyObj 1 True)), (''_callback'', PStr ''at_tick'')])],
                  task = \<lparr>running = True, next_call_time = PInt 7\<rparr>\<rparr>)]\<rparr>,
      server_config = [],
      log = []\<rparr>
   = (\<lparr>ticker_storage =
        [((Some (PyObj 1 True), Some ''at_tick'', None, 15, '''', True),
          Payload [] [(''_start_delay'', PNone), (''_obj'', PObj (PyObj 1 True)),
                      (''_callback'', PStr ''at_tick'')])],
      save_name = ''ticker_storage'',
      ticker_pool =
        \<lparr>tickers =
           [(15, \<lparr>interval = 15,
                  subscriptions =
                    [((Some (PyObj 1 True), Some ''at_tick'', None, 15, '''', True), [],
                      [(''_obj'', PObj (PyObj 1 True)), (''_callback'', PStr ''at_tick'')])],
                  task = \<lparr>running = True, next_call_time = PInt 7\<rparr>\<rparr>)]\<rparr>,
      server_config =
        [(''ticker_storage'',
          [((Some (PyObj 1 True), Some ''at_tick'', None, 15, '''', True),
            Payload [] [(''_start_delay'', PNone), (''_obj'', PObj (PyObj 1 True)),
                        (''_callback'', PStr ''at_tick'')])])],
      log = []\<rparr>, None)"
  by (simp add: handler_defs dict_defs key_defs Let_def)

text \<open>
  Claim C4. The claim asks that \<^verbatim>\<open>clear(interval)\<close> removes from the table exactly the
  subscriptions of that interval, keeps the others with their payloads, and persists the
  reduced table. \<^verbatim>\<open>clear\<close> filters on \<^verbatim>\<open>store_key[1] != interval\<close>, the method name against
  the interval, which keeps every key, and it stores each key as its own value; \<^verbatim>\<open>save\<close>
  then fails to unpack that value and raises \<^verbatim>\<open>ValueError\<close> before it writes. With two
  subscriptions registered, at 15 and at 30, \<^verbatim>\<open>clear(15)\<close> empties the ticker of 15 in the
  pool, leaves both keys in the table with the payloads gone, leaves the persisted record as
  it was, and raises.
\<close>

theorem clear_interval_keeps_table:
  "TickerHandler_clear (Some 15)
     (fst (TickerHandler_add 30 (PMethod (PyObj 2 True) ''at_tick'') '''' True
             [PInt 1] [(''x'', PInt 2)]
        (fst (TickerHandler_add 15 (PMethod (PyObj 1 True) ''at_tick'') '''' True [] []
           (TickerHandler_init ''ticker_storage'' [])))))
   = (\<lparr>ticker_storage =
        [((Some (PyObj 1 True), Some ''at_tick'', None, 15, '''', True),
          KeyEntry (Some (PyObj 1 True), Some ''at_tick'', None, 15, '''', True)),
         ((Some (PyObj 2 True), Some ''at_tick'', None, 30, '''', True),
          KeyEntry (Some (PyObj 2 True), Some ''at_tick'', None, 30, '''', True))],
      save_name = ''ticker_storage'',
      ticker_pool =
        \<lparr>tickers =
           [(15, \<lparr>interval = 15, subscriptions = [],
                  task = \<lparr>running = False, next_call_time = PNone\<rparr>\<rparr>),
            (30, \<lparr>interval = 30,
                  subscriptions =
                    [((Some (PyObj 2 True), Some ''at_tick'', None, 30, '''', True), [PInt 1],
                      [(''x'', PInt 2), (''_obj'', PObj (PyObj 2 True)),
                       (''_callback'', PStr ''at_tick'')])],
                  task = \<lparr>running = True, next_call_time = PInt 30\<rparr>\<rparr>)]\<rparr>,
      server_config =
        [(''ticker_storage'',
          [((Some (PyObj 1 True), Some ''at_tick'', None, 15, '''', True),
            Payload [] [(''_start_delay'', PNone), (''_obj'', PObj (PyObj 1 True)),
                        (''_callback'', PStr ''at_tick'')]),
           ((Some (PyObj 2 True), Some ''at_tick'', None, 30, '''', True),
            Payload [PInt 1] [(''x'', PInt 2), (''_start_delay'', PNone)])])],
      log = []\<rparr>, Some ValueError)"
  by (simp add: handler_defs pool_defs ticker_defs dict_defs key_defs Let_def)




section \<open>A firing: fault isolation and self-healing\<close>






lemma fire_one_exc:
  "s_exc (fire_one e as kws) = (if snd (sub_try e as kws) = Finished (Raised BaseExceptionOnly) then Some BaseExceptionOnly else None)"
  by (cases "sub_try e as kws") (auto simp: fire_one_def Let_def split: tried.splits outcome.splits raised.splits)

lemma fire_one_called: "s_called (fire_one e as kws) = fst (sub_try e as kws)"
  by (cases "sub_try e as kws") (auto simp: fire_one_def Let_def split: tried.splits outcome.splits raised.splits)

lemma fire_one_kwargs: "s_kwargs (fire_one e as kws) = restored_kwargs kws"
  by (cases "sub_try e as kws") (auto simp: fire_one_def Let_def split: tried.splits outcome.splits raised.splits)

lemma fire_one_remove:
  "s_remove (fire_one e as kws) = (snd (sub_try e as kws) = Marked \<or> snd (sub_try e as kws) = Finished (Raised ObjectDoesNotExist))"
  by (cases "sub_try e as kws") (auto simp: fire_one_def Let_def split: tried.splits outcome.splits raised.splits)

lemma fire_one_log:
  "s_log (fire_one e as kws) =
     (if snd (sub_try e as kws) = Finished (Raised ObjectDoesNotExist) then [TraceRemovingTicker]
      else if snd (sub_try e as kws) = Finished (Raised GenericException) then [TraceException] else [])"
  by (cases "sub_try e as kws") (auto simp: fire_one_def Let_def split: tried.splits outcome.splits raised.splits)

lemma fire_loop_complete:
  "no_base_exc e subs \<Longrightarrow>
   fire_loop e subs =
     \<lparr>f_subs = map (\<lambda>(k, as, kws). (k, as, restored_kwargs kws)) subs,
      f_to_remove = map fst (filter (\<lambda>(k, as, kws). s_remove (fire_one e as kws)) subs),
      f_log = concat (map (\<lambda>(k, as, kws). s_log (fire_one e as kws)) subs),
      f_called = map fst (filter (\<lambda>(k, as, kws). fst (sub_try e as kws)) subs),
      f_exc = None\<rparr>"
proof (induction subs)
  case Nil
  then show ?case by simp
next
  case (Cons s subs)
  obtain k as kws where s: "s = (k, as, kws)" by (cases s)
  from Cons.prems s have here: "snd (sub_try e as kws) \<noteq> Finished (Raised BaseExceptionOnly)"
    and rest: "no_base_exc e subs"
    by (simp_all add: no_base_exc_def)
  show ?case
    using Cons.IH [OF rest] here
    by (simp add: s Let_def fire_one_exc fire_one_called fire_one_kwargs)
qed

lemma remove_all_subscriptions:
  "subscriptions (remove_all ks t) = filter (\<lambda>s. fst s \<notin> set ks) (subscriptions t)"
  by (induction ks arbitrary: t) (auto simp: Ticker_remove_def AList.delete_eq intro: filter_cong)

lemma fire_loop_exc_None: "f_exc (fire_loop e subs) = None \<Longrightarrow> no_base_exc e subs"
proof (induction subs)
  case Nil
  then show ?case by (simp add: no_base_exc_def)
next
  case (Cons s subs)
  obtain k as kws where s: "s = (k, as, kws)" by (cases s)
  show ?case
  proof (cases "snd (sub_try e as kws) = Finished (Raised BaseExceptionOnly)")
    case True
    with Cons.prems s show ?thesis by (simp add: Let_def fire_one_exc)
  next
    case False
    with Cons.prems s have "f_exc (fire_loop e subs) = None"
      by (simp add: Let_def fire_one_exc)
    then have "no_base_exc e subs" by (rule Cons.IH)
    with False s show ?thesis by (simp add: no_base_exc_def)
  qed
qed

lemma Ticker_callback_complete:
  assumes "no_base_exc e (subscriptions t)"
  shows "fired_exc (Ticker_callback e t) = None"
    and "subscriptions (ticker_after (Ticker_callback e t)) =
           filter (\<lambda>s. fst s \<notin> fst ` {s \<in> set (subscriptions t). s_remove (fire_one e (fst (snd s)) (snd (snd s)))})
             (map (\<lambda>(k, as, kws). (k, as, restored_kwargs kws)) (subscriptions t))"
    and "fired_called (Ticker_callback e t) =
           map fst (filter (\<lambda>(k, as, kws). fst (sub_try e as kws)) (subscriptions t))"
    and "fired_log (Ticker_callback e t) =
           concat (map (\<lambda>(k, as, kws). s_log (fire_one e as kws)) (subscriptions t))"
proof -
  note fl = fire_loop_complete [OF assms]
  show "fired_exc (Ticker_callback e t) = None"
    by (simp add: Ticker_callback_def Let_def fl)
  have "set (map fst (filter (\<lambda>(k, as, kws). s_remove (fire_one e as kws)) (subscriptions t)))
      = fst ` {s \<in> set (subscriptions t). s_remove (fire_one e (fst (snd s)) (snd (snd s)))}"
    by (auto simp: image_iff)
  then show "subscriptions (ticker_after (Ticker_callback e t)) =
           filter (\<lambda>s. fst s \<notin> fst ` {s \<in> set (subscriptions t). s_remove (fire_one e (fst (snd s)) (snd (snd s)))})
             (map (\<lambda>(k, as, kws). (k, as, restored_kwargs kws)) (subscriptions t))"
    by (simp add: Ticker_callback_def Let_def fl remove_all_subscriptions)
  show "fired_called (Ticker_callback e t) =
           map fst (filter (\<lambda>(k, as, kws). fst (sub_try e as kws)) (subscriptions t))"
    by (simp add: Ticker_callback_def Let_def fl)
  show "fired_log (Ticker_callback e t) =
           concat (map (\<lambda>(k, as, kws). s_log (fire_one e as kws)) (subscriptions t))"
    by (simp add: Ticker_callback_def Let_def fl)
qed








lemma sub_try_dead:
  assumes cb: "dict_get ''_callback'' (PStr ''at_tick'') kws = PStr m"
    and ob: "dict_get ''_obj'' PNone kws = PObj ob"
    and dead: "pk e (ident ob) = None"
  shows "sub_try e as kws = (False, Marked)"
proof -
  have "dict_get ''_obj'' PNone (AList.delete ''_callback'' kws) = PObj ob"
    using ob by (simp add: dict_get_def)
  then show ?thesis
    using cb dead by (simp add: sub_try_def dict_pop_def try_block_def pk_truthy_def)
qed

lemma set_map_entry_distinct:
  assumes "distinct (map fst xs)"
  shows "(j, v) \<in> set (AList.map_entry i f xs) \<longleftrightarrow>
         (if j = i then \<exists>u. (i, u) \<in> set xs \<and> v = f u else (j, v) \<in> set xs)"
proof -
  have d: "distinct (map fst (AList.map_entry i f xs))"
    using assms by (rule AList.distinct_map_entry)
  have "(j, v) \<in> set (AList.map_entry i f xs) \<longleftrightarrow> map_of (AList.map_entry i f xs) j = Some v"
    using d by simp
  also have "\<dots> \<longleftrightarrow> (if j = i then \<exists>u. map_of xs i = Some u \<and> v = f u else map_of xs j = Some v)"
    by (auto simp: AList.map_of_map_entry split: option.splits)
  also have "\<dots> \<longleftrightarrow> (if j = i then \<exists>u. (i, u) \<in> set xs \<and> v = f u else (j, v) \<in> set xs)"
    using assms by simp
  finally show ?thesis .
qed

lemma filter_out: "k \<in> R \<Longrightarrow> k \<notin> fst ` set (filter (\<lambda>s. fst s \<notin> R) xs)"
  by auto

text \<open>
  Claim C6. Take a handler whose pool holds, under interval \<open>i\<close>, a ticker with a subscription
  addressed by a method name and an entity whose primary key is gone, in a pool with pairwise
  different intervals that routes every key to the ticker of its interval. A firing of that
  ticker that returns logs nothing for the subscription and lets no exception through for it,
  marks its key, and removes it: afterwards the key is absent from the ticker's subscription
  mapping and from what \<^verbatim>\<open>all(i)\<close> and \<^verbatim>\<open>all()\<close> report.
\<close>

theorem dead_target_self_heal:
  assumes held: "map_of (tickers (ticker_pool h)) i = Some t"
    and dist: "distinct (map fst (tickers (ticker_pool h)))"
    and routed: "pool_routed (ticker_pool h)"
    and mem: "(k, as, kws) \<in> set (subscriptions t)"
    and cb: "dict_get ''_callback'' (PStr ''at_tick'') kws = PStr m"
    and ob: "dict_get ''_obj'' PNone kws = PObj ob"
    and dead: "pk e (ident ob) = None"
    and completes: "snd (fire_interval e i h) = None"
  shows "s_log (fire_one e as kws) = [] \<and> s_exc (fire_one e as kws) = None \<and>
         s_remove (fire_one e as kws) \<and>
         k \<notin> pool_keys i (ticker_pool (fst (fire_interval e i h))) \<and>
         k \<notin> all_keys (TickerHandler_all (Some i) (fst (fire_interval e i h))) \<and>
         k \<notin> all_keys (TickerHandler_all None (fst (fire_interval e i h)))"
proof -
  let ?r = "Ticker_callback e t"
  let ?h = "fst (fire_interval e i h)"
  have st: "sub_try e as kws = (False, Marked)" using cb ob dead by (rule sub_try_dead)
  have one: "s_log (fire_one e as kws) = [] \<and> s_exc (fire_one e as kws) = None \<and>
         s_remove (fire_one e as kws)"
    by (simp add: fire_one_log fire_one_exc fire_one_remove st)
  have tk: "tickers (ticker_pool ?h) = AList.map_entry i (\<lambda>t. ticker_after ?r) (tickers (ticker_pool h))"
    using held by (simp add: fire_interval_def Let_def)
  from completes held have "fired_exc ?r = None" by (simp add: fire_interval_def Let_def)
  then have "f_exc (fire_loop e (subscriptions t)) = None" by (simp add: Ticker_callback_def Let_def)
  then have nb: "no_base_exc e (subscriptions t)" by (rule fire_loop_exc_None)
  have "k \<in> fst ` {s \<in> set (subscriptions t). s_remove (fire_one e (fst (snd s)) (snd (snd s)))}"
    using mem one by force
  then have gone: "k \<notin> fst ` set (subscriptions (ticker_after ?r))"
    unfolding Ticker_callback_complete(2) [OF nb] by (rule filter_out)
  have at: "map_of (tickers (ticker_pool ?h)) i = Some (ticker_after ?r)"
    by (simp add: tk map_of_map_entry_same held)
  have p: "k \<notin> pool_keys i (ticker_pool ?h)"
    using gone by (simp add: pool_keys_def at)
  have a1: "k \<notin> all_keys (TickerHandler_all (Some i) ?h)"
    using gone by (simp add: all_keys_def TickerHandler_all_def at Ticker_truth_def)
  have it: "(i, t) \<in> set (tickers (ticker_pool h))" using held by (rule map_of_SomeD)
  with routed mem have ki: "key_interval k = i" by (force simp: pool_routed_def)
  have a2: "k \<notin> all_keys (TickerHandler_all None ?h)"
  proof
    assume "k \<in> all_keys (TickerHandler_all None ?h)"
    then obtain j t' where jt: "(j, t') \<in> set (tickers (ticker_pool ?h))"
      and kin: "k \<in> fst ` set (subscriptions t')"
      by (auto simp: all_keys_def TickerHandler_all_def)
    show False
    proof (cases "j = i")
      case True
      with jt have "t' = ticker_after ?r"
        by (auto simp: tk set_map_entry_distinct [OF dist])
      with kin gone show False by simp
    next
      case False
      with jt have "(j, t') \<in> set (tickers (ticker_pool h))"
        by (simp add: tk set_map_entry_distinct [OF dist])
      with routed kin have "key_interval k = j" by (force simp: pool_routed_def)
      with ki False show False by simp
    qed
  qed
  from one p a1 a2 show ?thesis by blast
qed

theorem dead_target_self_heal_witness:
  "(Some (PyObj 1 True), Some ''at_tick'', None, 10, '''', True)
     \<notin> all_keys (TickerHandler_all None (fst (fire_interval sample_env 10 sample_handler)))"
  using dead_target_self_heal
    [of sample_handler 10 sample_ticker "(Some (PyObj 1 True), Some ''at_tick'', None, 10, '''', True)"
        "[PInt 5]" "[(''_obj'', PObj (PyObj 1 True)), (''_callback'', PStr ''at_tick'')]"
        "''at_tick''" "PyObj 1 True" sample_env]
  by (simp add: sample_handler_def sample_ticker_def sample_env_def firing_defs dict_defs
      pool_routed_def key_interval_def ticker_defs Let_def)

section \<open>Adding twice\<close>






lemma store_key_interval [simp]:
  "key_interval (TickerHandler_store_key obj path iv callfunc ids pers) = iv"
  by (simp add: TickerHandler_store_key_def key_interval_def Let_def)

lemma pool_add_zero:
  "key_interval K = 0 \<Longrightarrow> TickerPool_add K as kws p = (p, Some KeyError)"
  by (simp add: TickerPool_add_def)













lemma save_loop_table_ok:
  "table_ok tbl \<Longrightarrow>
   save_loop (map (\<lambda>(iv, ticker). (PInt iv, next_call_time (task ticker))) ts) tbl =
     (map (\<lambda>(k, v). (k, stamp v)) tbl, None)"
proof (induction tbl)
  case Nil
  then show ?case by simp
next
  case (Cons x tbl)
  obtain k v where x: "x = (k, v)" by (cases x)
  from Cons.prems x obtain as kws where v: "v = Payload as kws" and rest: "table_ok tbl"
    by (cases v) (simp_all add: table_ok_def)
  show ?case
    using Cons.IH [OF rest] by (simp add: x v start_delays_miss stamp_def)
qed


lemma save_returns:
  "table_ok (ticker_storage h) \<Longrightarrow> snd (TickerHandler_save h) = None"
  by (simp add: TickerHandler_save_def Let_def save_loop_table_ok)

lemma table_ok_update:
  "table_ok tbl \<Longrightarrow> table_ok (AList.update k (Payload as kws) tbl)"
  by (induction tbl) (auto simp: table_ok_def)



lemma callable_get_callback:
  "callable cb \<Longrightarrow> \<exists>obj path callfunc. TickerHandler_get_callback cb = Inr (obj, path, callfunc)"
  by (cases cb) (simp_all add: TickerHandler_get_callback_def)




section \<open>Restoring\<close>













text \<open>An entry with interval 0 ends the restore: the pool's \<^verbatim>\<open>add\<close> raises outside the
  \<^verbatim>\<open>try\<close> block, and the entry after it is not restored.\<close>

lemma restore_zero_interval_raises:
  "TickerHandler_restore sample_env True
     (TickerHandler_init ''ticker_storage''
        [(''ticker_storage'',
          [((Some (PyObj 2 True), Some ''at_tick'', None, 0, '''', True), Payload [] []),
           ((Some (PyObj 2 True), Some ''at_tick'', None, 15, '''', True), Payload [] [])])])
   = (\<lparr>ticker_storage =
         [((Some (PyObj 2 True), Some ''at_tick'', None, 0, '''', True),
           Payload [] [(''_callback'', PStr ''at_tick''), (''_obj'', PObj (PyObj 2 True))])],
       save_name = ''ticker_storage'',
       ticker_pool = \<lparr>tickers = []\<rparr>,
       server_config =
         [(''ticker_storage'',
           [((Some (PyObj 2 True), Some ''at_tick'', None, 0, '''', True), Payload [] []),
            ((Some (PyObj 2 True), Some ''at_tick'', None, 15, '''', True), Payload [] [])])],
       log = []\<rparr>,
      Some KeyError)"
  by (simp add: TickerHandler_restore_def TickerHandler_init_def restore_entry_def
      pool_defs dict_defs key_defs Let_def)






section \<open>Rejected calls of add\<close>

text \<open>
  Claim C9 does not hold as stated. A callback that is not callable raises \<^verbatim>\<open>TypeError\<close> to
  the caller. With interval 0, \<^verbatim>\<open>add\<close> writes the table and the persisted record, and then
  the pool's \<^verbatim>\<open>add\<close> raises \<^verbatim>\<open>KeyError\<close> while it formats its message: nothing is logged
  and the exception reaches the caller. A negative interval is true for \<^verbatim>\<open>if not interval\<close>,
  so the pool creates a ticker for it. A callable that is neither a method nor a function
  is registered under a key without entity, method and path.
\<close>

theorem add_invalid_not_noop:
  "TickerHandler_add 15 PNone '''' True [] [] (TickerHandler_init ''ticker_storage'' [])
   = (TickerHandler_init ''ticker_storage'' [], Some TypeError) \<and>
   TickerHandler_add 0 (PMethod (PyObj 1 True) ''at_tick'') '''' True [] []
     (TickerHandler_init ''ticker_storage'' [])
   = (\<lparr>ticker_storage =
         [((Some (PyObj 1 True), Some ''at_tick'', None, 0, '''', True),
           Payload [] [(''_start_delay'', PNone), (''_obj'', PObj (PyObj 1 True)),
                       (''_callback'', PStr ''at_tick'')])],
       save_name = ''ticker_storage'',
       ticker_pool = \<lparr>tickers = []\<rparr>,
       server_config =
         [(''ticker_storage'',
           [((Some (PyObj 1 True), Some ''at_tick'', None, 0, '''', True),
             Payload [] [(''_start_delay'', PNone)])])],
       log = []\<rparr>,
      Some KeyError) \<and>
   map fst (tickers (ticker_pool (fst
     (TickerHandler_add (- 5) (PMethod (PyObj 1 True) ''at_tick'') '''' True [] []
        (TickerHandler_init ''ticker_storage'' [])))))
   = [- 5] \<and>
   log (fst (TickerHandler_add (- 5) (PMethod (PyObj 1 True) ''at_tick'') '''' True [] []
               (TickerHandler_init ''ticker_storage'' [])))
   = [] \<and>
   map fst (ticker_storage (fst
     (TickerHandler_add 15 (PCallable 7) '''' True [] []
        (TickerHandler_init ''ticker_storage'' []))))
   = [(None, None, None, 15, '''', True)] \<and>
   pool_keys 15 (ticker_pool (fst
     (TickerHandler_add 15 (PCallable 7) '''' True [] []
        (TickerHandler_init ''ticker_storage'' []))))
   = {(None, None, None, 15, '''', True)}"
  by (simp add: handler_defs pool_defs ticker_defs dict_defs key_defs Let_def pool_keys_def)

text \<open>
  Claim C9, amended. An \<^verbatim>\<open>add\<close> whose callback is not callable is rejected by a \<^verbatim>\<open>TypeError\<close>
  raised to the caller, and changes nothing: table, persisted record, pool and log stay as
  they were.
\<close>

theorem add_rejects_noncallable:
  "\<not> callable cb \<Longrightarrow> TickerHandler_add iv cb ids pers as kws h = (h, Some TypeError)"
  by (simp add: TickerHandler_add_def TickerHandler_get_callback_def)

theorem add_rejects_noncallable_witness:
  "TickerHandler_add 15 (PInt 3) ''tag'' True [PInt 1] [(''x'', PInt 2)] sample_handler
   = (sample_handler, Some TypeError)"
  using add_rejects_noncallable [of "PInt 3" 15 "''tag''" True "[PInt 1]" "[(''x'', PInt 2)]"
      sample_handler]
  by simp

text \<open>With interval 0 and a callable callback, \<^verbatim>\<open>add\<close> on a table of pairs
  \<^verbatim>\<open>(args, kwargs)\<close> always ends with the \<^verbatim>\<open>KeyError\<close> of the pool's \<^verbatim>\<open>add\<close>.\<close>

lemma add_zero_interval_raises:
  assumes "table_ok (ticker_storage h)" and "callable cb"
  shows "snd (TickerHandler_add 0 cb ids pers as kws h) = Some KeyError"
proof -
  from callable_get_callback [OF assms(2)] obtain obj path callfunc
    where gc: "TickerHandler_get_callback cb = Inr (obj, path, callfunc)" by blast
  let ?K = "TickerHandler_store_key obj path 0 callfunc ids pers"
  let ?h1 = "h\<lparr>ticker_storage := dict_set ?K (Payload as kws) (ticker_storage h)\<rparr>"
  have t1: "table_ok (ticker_storage ?h1)"
    using assms(1) by (simp add: dict_set_def table_ok_update)
  obtain h2 err where sv: "TickerHandler_save ?h1 = (h2, err)" by (cases "TickerHandler_save ?h1")
  with save_returns [OF t1] have err: "err = None" by simp
  have z: "key_interval ?K = 0" by simp
  show ?thesis
    using gc sv err by (simp add: TickerHandler_add_def Let_def pool_add_zero [OF z])
qed

section \<open>Removing a non-durable subscription\<close>




lemma store_key_persistent [simp]:
  "key_persistent (TickerHandler_store_key obj path iv callfunc ids pers) = pers"
  by (simp add: TickerHandler_store_key_def key_persistent_def Let_def)










end
